theory Spec2Isabelle
  imports Complex_Main
begin

section \<open>Values of the client\<close>

text \<open>
  Identifiers are the UUID strings the client handles. A JavaScript number is either
  one of the three non-finite values or a finite value; finite values are taken as exact
  rationals, so the rounding of IEEE doubles is outside this development.
\<close>

type_synonym uuid = string

datatype number = NaN | PosInf | NegInf | Fin rat

text \<open>\<^verbatim>\<open>amount / participantCount\<close>, the divisor being an array length.\<close>

fun num_div :: "number \<Rightarrow> nat \<Rightarrow> number" where
  "num_div NaN n = NaN"
| "num_div PosInf n = PosInf"
| "num_div NegInf n = NegInf"
| "num_div (Fin a) n =
     (if n = 0 then (if 0 < a then PosInf else if a < 0 then NegInf else NaN)
      else Fin (a / of_nat n))"

text \<open>\<^verbatim>\<open>amount <= 0\<close>: every comparison with NaN is false.\<close>

fun num_le_zero :: "number \<Rightarrow> bool" where
  "num_le_zero NaN = False"
| "num_le_zero PosInf = False"
| "num_le_zero NegInf = True"
| "num_le_zero (Fin a) = (a \<le> 0)"

text \<open>
  \<^verbatim>\<open>String.prototype.trim\<close> on the characters a \<^typ>\<open>string\<close> can hold: the
  ASCII white space and line terminators.
\<close>

definition is_space :: "char \<Rightarrow> bool" where
  "is_space c = (c \<in> {CHR 0x20, CHR 0x09, CHR 0x0A, CHR 0x0B, CHR 0x0C, CHR 0x0D})"

definition trim :: "string \<Rightarrow> string" where
  "trim s = rev (dropWhile is_space (rev (dropWhile is_space s)))"

text \<open>\<^verbatim>\<open>.single()\<close>: the row when the result has exactly one, null otherwise.\<close>

fun single :: "'a list \<Rightarrow> 'a option" where
  "single [x] = Some x"
| "single xs = None"

section \<open>Tables of the store\<close>

text \<open>
  The columns the client reads or writes, from the migration. Generated keys of rows
  that no query selects, timestamps and the expense category are left out.
\<close>

record profile =
  p_id :: uuid
  p_full_name :: string
  p_email :: string

record group_row =
  g_id :: uuid
  g_name :: string

record friendship =
  f_user_id :: uuid
  f_friend_id :: uuid
  f_status :: string

record expense =
  e_id :: uuid
  e_description :: string
  e_amount :: rat
  e_paid_by :: uuid
  e_group_id :: "uuid option"
  e_expense_date :: string

record participant =
  expense_id :: uuid
  user_id :: uuid
  amount_owed :: rat
  is_settled :: bool

record settlement =
  s_from_user :: uuid
  s_to_user :: uuid
  s_amount :: rat
  s_description :: string
  s_group_id :: "uuid option"

text \<open>The bodies of the insert requests, with amounts still JavaScript numbers.\<close>

record new_expense =
  ne_description :: string
  ne_amount :: number
  ne_expense_date :: string
  ne_group_id :: uuid
  ne_paid_by :: uuid

record new_participant =
  np_expense_id :: uuid
  np_user_id :: uuid
  np_amount_owed :: number
  np_is_settled :: bool

record new_settlement =
  ns_from_user :: uuid
  ns_to_user :: uuid
  ns_amount :: number
  ns_description :: string
  ns_group_id :: "uuid option"

datatype request =
    InsertExpense new_expense
  | InsertParticipants "new_participant list"
  | InsertSettlement new_settlement
  | InsertFriendship friendship

text \<open>
  The state: the tables, and the write requests the client has issued so far (whether
  the store accepted them or not).
\<close>

record world =
  profiles :: "profile list"
  groups :: "group_row list"
  friendships :: "friendship list"
  expenses :: "expense list"
  expense_participants :: "participant list"
  settlements :: "settlement list"
  writes :: "request list"

datatype error =
    NoAnswer
  | NotNullViolation
  | NumericOverflow
  | CheckViolation
  | UniqueViolation
  | ForeignKeyViolation

text \<open>
  A request of an action is answered or not: transport, authorization and references to
  tables that are not modelled decide that from outside, so each action takes a
  \<open>link\<close>, telling for the n-th request of the action whether the store answers it.
\<close>

type_synonym link = "nat \<Rightarrow> bool"

subsection \<open>Column type \<^verbatim>\<open>DECIMAL(10,2) NOT NULL\<close>\<close>

text \<open>
  A non-finite number is serialised as null. A finite one is rounded to two places,
  ties away from zero, and must then have at most eight integral digits.
\<close>

definition decimal_10_2 :: "rat \<Rightarrow> rat option" where
  "decimal_10_2 x =
     (let r = (if x < 0 then - of_int \<lfloor>- x * 100 + 1 / 2\<rfloor> else of_int \<lfloor>x * 100 + 1 / 2\<rfloor>) / 100
      in if \<bar>r\<bar> < 100000000 then Some r else None)"

fun to_decimal :: "number \<Rightarrow> error + rat" where
  "to_decimal (Fin x) = (case decimal_10_2 x of None \<Rightarrow> Inl NumericOverflow | Some r \<Rightarrow> Inr r)"
| "to_decimal n = Inl NotNullViolation"

section \<open>Dashboard: balance aggregation\<close>

record Balance =
  total_owed :: rat
  total_owing :: rat
  net_balance :: rat

text \<open>The expense a participant row refers to (\<^verbatim>\<open>expenses!inner\<close>, a to-one embedding).\<close>

definition parent :: "world \<Rightarrow> participant \<Rightarrow> expense option" where
  "parent w p = find (\<lambda>e. e_id e = expense_id p) (expenses w)"

text \<open>The two reads of \<^verbatim>\<open>fetchDashboardData\<close>; \<open>None\<close> is \<^verbatim>\<open>data: null\<close>.\<close>

definition select_owed :: "bool \<Rightarrow> world \<Rightarrow> uuid \<Rightarrow> participant list option" where
  "select_owed answered w u =
     (if answered
      then Some (filter (\<lambda>p. is_settled p = False)
                  (filter (\<lambda>p. user_id p = u) (expense_participants w)))
      else None)"

definition select_owing :: "bool \<Rightarrow> world \<Rightarrow> uuid \<Rightarrow> participant list option" where
  "select_owing answered w u =
     (if answered
      then Some (filter (\<lambda>p. is_settled p = False)
                  (filter (\<lambda>p. user_id p = u)
                    (filter (\<lambda>p. case parent w p of None \<Rightarrow> False | Some e \<Rightarrow> e_paid_by e \<noteq> u)
                      (expense_participants w))))
      else None)"

text \<open>\<^verbatim>\<open>data?.reduce((sum, item) => sum + Number(item.amount_owed), 0) || 0\<close>\<close>

definition reduce_amount_owed :: "participant list option \<Rightarrow> rat" where
  "reduce_amount_owed data =
     (case data of
        None \<Rightarrow> 0
      | Some items \<Rightarrow>
          (let s = foldl (\<lambda>sum item. sum + amount_owed item) 0 items
           in if s = 0 then 0 else s))"

definition fetchDashboardData :: "link \<Rightarrow> world \<Rightarrow> uuid \<Rightarrow> Balance" where
  "fetchDashboardData link w user =
     (let owedData = select_owed (link 0) w user;
          owingData = select_owing (link 1) w user;
          totalOwed = reduce_amount_owed owedData;
          totalOwing = reduce_amount_owed owingData
      in \<lparr>total_owed = totalOwed, total_owing = totalOwing,
          net_balance = totalOwed - totalOwing\<rparr>)"


section \<open>Writes, as the store performs them\<close>

text \<open>
  Every insert is recorded as issued, then refused or performed as a whole. The checks
  are the constraints of the migration: \<^verbatim>\<open>NOT NULL\<close>, the column type,
  \<^verbatim>\<open>CHECK (amount > 0)\<close>, \<^verbatim>\<open>CHECK (amount_owed >= 0)\<close>, primary and unique
  keys, and the reference from a participant row to its expense.
\<close>

definition insert_expense ::
  "bool \<Rightarrow> uuid \<Rightarrow> new_expense \<Rightarrow> world \<Rightarrow> (error + expense) \<times> world" where
  "insert_expense answered new_id r w =
     (let w' = w\<lparr>writes := writes w @ [InsertExpense r]\<rparr>
      in if \<not> answered then (Inl NoAnswer, w')
         else case to_decimal (ne_amount r) of
                Inl e \<Rightarrow> (Inl e, w')
              | Inr a \<Rightarrow>
                  if \<not> 0 < a then (Inl CheckViolation, w')
                  else if new_id \<in> set (map e_id (expenses w)) then (Inl UniqueViolation, w')
                  else
                    let row = \<lparr>e_id = new_id, e_description = ne_description r, e_amount = a,
                               e_paid_by = ne_paid_by r, e_group_id = Some (ne_group_id r),
                               e_expense_date = ne_expense_date r\<rparr>
                    in (Inr row, w'\<lparr>expenses := expenses w @ [row]\<rparr>))"

fun participant_rows :: "new_participant list \<Rightarrow> error + participant list" where
  "participant_rows [] = Inr []"
| "participant_rows (r # rs) =
     (case to_decimal (np_amount_owed r) of
        Inl e \<Rightarrow> Inl e
      | Inr a \<Rightarrow>
          (case participant_rows rs of
             Inl e \<Rightarrow> Inl e
           | Inr ps \<Rightarrow>
               Inr (\<lparr>expense_id = np_expense_id r, user_id = np_user_id r, amount_owed = a,
                     is_settled = np_is_settled r\<rparr> # ps)))"

definition insert_participants ::
  "bool \<Rightarrow> new_participant list \<Rightarrow> world \<Rightarrow> (error + participant list) \<times> world" where
  "insert_participants answered rs w =
     (let w' = w\<lparr>writes := writes w @ [InsertParticipants rs]\<rparr>
      in if \<not> answered then (Inl NoAnswer, w')
         else case participant_rows rs of
                Inl e \<Rightarrow> (Inl e, w')
              | Inr rows \<Rightarrow>
                  if \<not> list_all (\<lambda>p. 0 \<le> amount_owed p) rows then (Inl CheckViolation, w')
                  else if \<not> list_all (\<lambda>p. expense_id p \<in> set (map e_id (expenses w))) rows
                    then (Inl ForeignKeyViolation, w')
                  else if \<not> distinct (map (\<lambda>p. (expense_id p, user_id p))
                                          (expense_participants w @ rows))
                    then (Inl UniqueViolation, w')
                  else (Inr rows, w'\<lparr>expense_participants := expense_participants w @ rows\<rparr>))"

definition insert_settlement ::
  "bool \<Rightarrow> new_settlement \<Rightarrow> world \<Rightarrow> (error + settlement) \<times> world" where
  "insert_settlement answered r w =
     (let w' = w\<lparr>writes := writes w @ [InsertSettlement r]\<rparr>
      in if \<not> answered then (Inl NoAnswer, w')
         else case to_decimal (ns_amount r) of
                Inl e \<Rightarrow> (Inl e, w')
              | Inr a \<Rightarrow>
                  if \<not> 0 < a then (Inl CheckViolation, w')
                  else
                    let row = \<lparr>s_from_user = ns_from_user r, s_to_user = ns_to_user r,
                               s_amount = a, s_description = ns_description r,
                               s_group_id = ns_group_id r\<rparr>
                    in (Inr row, w'\<lparr>settlements := settlements w @ [row]\<rparr>))"


section \<open>Add Expense: equal split\<close>

text \<open>The notice an action ends with.\<close>

datatype toast =
    ValidationError
  | InvalidAmount
  | Success
  | PaymentRecorded
  | UserNotFound
  | InvalidAction
  | AlreadyFriends
  | FriendRequestSent
  | Failed

record expense_form =
  form_description :: string
  form_amount :: string
  form_expenseDate :: string
  selectedGroup :: uuid
  selectedParticipants :: "uuid list"

text \<open>
  \<^verbatim>\<open>handleSubmit\<close>. \<open>parseFloat\<close> is the JavaScript built-in, \<open>user\<close> the
  identity of the session and \<open>new_id\<close> the key the store generates for the expense.
  An error of either insert is thrown and caught: the action ends with the failure notice.
\<close>

definition handleSubmit ::
  "(string \<Rightarrow> number) \<Rightarrow> link \<Rightarrow> uuid \<Rightarrow> uuid \<Rightarrow> expense_form \<Rightarrow> world \<Rightarrow> toast \<times> world" where
  "handleSubmit parseFloat link new_id user formData w =
     (if selectedGroup formData = [] \<or> length (selectedParticipants formData) = 0
         \<or> form_description formData = [] \<or> form_amount formData = []
      then (ValidationError, w)
      else
        let amount = parseFloat (form_amount formData);
            participantCount = length (selectedParticipants formData);
            amountPerPerson = num_div amount participantCount
        in case insert_expense (link 0) new_id
                  \<lparr>ne_description = form_description formData, ne_amount = amount,
                   ne_expense_date = form_expenseDate formData,
                   ne_group_id = selectedGroup formData, ne_paid_by = user\<rparr> w of
             (Inl expenseError, w1) \<Rightarrow> (Failed, w1)
           | (Inr expense, w1) \<Rightarrow>
               let participants =
                     map (\<lambda>participantId.
                            \<lparr>np_expense_id = e_id expense, np_user_id = participantId,
                             np_amount_owed = amountPerPerson, np_is_settled = False\<rparr>)
                         (selectedParticipants formData)
               in case insert_participants (link 1) participants w1 of
                    (Inl participantsError, w2) \<Rightarrow> (Failed, w2)
                  | (Inr rows, w2) \<Rightarrow> (Success, w2))"

section \<open>Settle Up\<close>

record debt =
  d_user_id :: uuid
  d_full_name :: string
  d_email :: string
  d_amount :: rat
  d_group_name :: "string option"







record settle_form =
  selectedDebt :: "debt option"
  settleAmount :: string
  settleDescription :: string

text \<open>
  \<^verbatim>\<open>handleSettle\<close>. The group of the new row is null on both branches of the
  source's conditional (an undefined field is not sent). The refresh after a recorded
  payment only reads.
\<close>

definition handleSettle ::
  "(string \<Rightarrow> number) \<Rightarrow> link \<Rightarrow> uuid \<Rightarrow> settle_form \<Rightarrow> world \<Rightarrow> toast \<times> world" where
  "handleSettle parseFloat link user form w =
     (case selectedDebt form of
        None \<Rightarrow> (ValidationError, w)
      | Some debt \<Rightarrow>
          if settleAmount form = [] \<or> trim (settleDescription form) = []
          then (ValidationError, w)
          else
            let amount = parseFloat (settleAmount form)
            in if num_le_zero amount then (InvalidAmount, w)
               else case insert_settlement (link 0)
                           \<lparr>ns_from_user = user, ns_to_user = d_user_id debt,
                            ns_amount = amount,
                            ns_description = trim (settleDescription form),
                            ns_group_id = None\<rparr> w of
                      (Inl settlementError, w1) \<Rightarrow> (Failed, w1)
                    | (Inr row, w1) \<Rightarrow> (PaymentRecorded, w1))"

section \<open>Friends\<close>


section \<open>Settle Up: the nets as sums over the rows\<close>





section \<open>Sample states\<close>

text \<open>
  The values of the built-in \<^verbatim>\<open>parseFloat\<close> on the strings the examples type into the
  amount fields; no other string is used.
\<close>

definition parse_examples :: "string \<Rightarrow> number" where
  "parse_examples s =
     (if s = ''300'' then Fin 300
      else if s = ''50'' then Fin 50
      else if s = ''0'' then Fin 0
      else NaN)"

text \<open>A store that answers every request.\<close>

definition always :: link where
  "always n = True"

text \<open>
  Three profiles in one group; Bob paid a taxi of 100 that he and Ann split, and Ann has
  sent Bob a friend request that he accepted.
\<close>

definition sample_world :: world where
  "sample_world =
     \<lparr>profiles = [\<lparr>p_id = ''u1'', p_full_name = ''Ann'', p_email = ''ann@x.org''\<rparr>,
                  \<lparr>p_id = ''u2'', p_full_name = ''Bob'', p_email = ''bob@x.org''\<rparr>,
                  \<lparr>p_id = ''u3'', p_full_name = ''Cy'', p_email = ''cy@x.org''\<rparr>],
      groups = [\<lparr>g_id = ''g1'', g_name = ''Trip''\<rparr>],
      friendships = [\<lparr>f_user_id = ''u1'', f_friend_id = ''u2'', f_status = ''accepted''\<rparr>],
      expenses = [\<lparr>e_id = ''e0'', e_description = ''Taxi'', e_amount = 100, e_paid_by = ''u2'',
                   e_group_id = Some ''g1'', e_expense_date = ''2025-01-01''\<rparr>],
      expense_participants =
        [\<lparr>expense_id = ''e0'', user_id = ''u1'', amount_owed = 50, is_settled = False\<rparr>,
         \<lparr>expense_id = ''e0'', user_id = ''u2'', amount_owed = 50, is_settled = False\<rparr>],
      settlements = [],
      writes = []\<rparr>"

text \<open>Forms of the Add Expense page, and a store that answers the first request only.\<close>

definition form_300 :: expense_form where
  "form_300 =
     \<lparr>form_description = ''Dinner'', form_amount = ''300'', form_expenseDate = ''2025-02-01'',
      selectedGroup = ''g1'', selectedParticipants = [''u1'', ''u2'', ''u3'']\<rparr>"

definition first_only :: link where
  "first_only n = (n = 0)"

definition form_zero :: expense_form where
  "form_zero = form_300\<lparr>form_amount := ''0''\<rparr>"

text \<open>A payment of 50 from Ann to Bob, as the Settle Up form holds it.\<close>

definition settle_form_50 :: settle_form where
  "settle_form_50 =
     \<lparr>selectedDebt = Some \<lparr>d_user_id = ''u2'', d_full_name = ''Bob'', d_email = ''bob@x.org'',
                            d_amount = 50, d_group_name = Some ''Trip''\<rparr>,
      settleAmount = ''50'', settleDescription = '' cash ''\<rparr>"


section \<open>Properties of the dashboard\<close>

lemma sum_foldl:
  "foldl (\<lambda>sum item. sum + amount_owed item) a items = a + (\<Sum>p\<leftarrow>items. amount_owed p)"
  by (induction items arbitrary: a) (simp_all add: add.assoc)

lemma reduce_Some: "reduce_amount_owed (Some items) = (\<Sum>p\<leftarrow>items. amount_owed p)"
  by (simp add: reduce_amount_owed_def sum_foldl Let_def)

lemma owed_rows:
  "select_owed True w u
     = Some (filter (\<lambda>p. user_id p = u \<and> \<not> is_settled p) (expense_participants w))"
  by (simp add: select_owed_def conj_commute)

lemma owing_rows:
  "select_owing True w u =
     Some (filter (\<lambda>p. user_id p = u
                       \<and> (\<exists>e. parent w p = Some e \<and> e_paid_by e \<noteq> u)
                       \<and> \<not> is_settled p)
            (expense_participants w))"
  unfolding select_owing_def
  by (auto split: option.splits intro!: filter_cong)




lemma sample_fk:
  "\<forall>p\<in>set (expense_participants sample_world).
      expense_id p \<in> set (map e_id (expenses sample_world))"
  by (simp add: sample_world_def)






section \<open>Properties of expense creation\<close>

lemma insert_expense_accepted:
  assumes "answered" and "ne_amount r = Fin A" and "decimal_10_2 A = Some a" and "0 < a"
    and "new_id \<notin> set (map e_id (expenses w))"
  shows "insert_expense answered new_id r w =
           (Inr \<lparr>e_id = new_id, e_description = ne_description r, e_amount = a,
                 e_paid_by = ne_paid_by r, e_group_id = Some (ne_group_id r),
                 e_expense_date = ne_expense_date r\<rparr>,
            w\<lparr>writes := writes w @ [InsertExpense r],
              expenses := expenses w @
                [\<lparr>e_id = new_id, e_description = ne_description r, e_amount = a,
                  e_paid_by = ne_paid_by r, e_group_id = Some (ne_group_id r),
                  e_expense_date = ne_expense_date r\<rparr>]\<rparr>)"
  using assms by (simp add: insert_expense_def Let_def)

lemma insert_participants_cases:
  "insert_participants answered rs w = (res, w') \<Longrightarrow>
     writes w' = writes w @ [InsertParticipants rs]
     \<and> expenses w' = expenses w
     \<and> (case res of
           Inl e \<Rightarrow> expense_participants w' = expense_participants w
         | Inr rows \<Rightarrow> participant_rows rs = Inr rows
                       \<and> expense_participants w' = expense_participants w @ rows)"
  by (auto simp add: insert_participants_def Let_def split: if_splits sum.splits)

lemma handleSubmit_accepted:
  assumes valid: "selectedGroup f \<noteq> []" "selectedParticipants f \<noteq> []"
      "form_description f \<noteq> []" "form_amount f \<noteq> []"
    and parse: "parseFloat (form_amount f) = Fin A"
    and accepted: "link 0" "decimal_10_2 A = Some a" "0 < a"
      "new_id \<notin> set (map e_id (expenses w))"
  shows "handleSubmit parseFloat link new_id user f w =
     (case insert_participants (link 1)
             (map (\<lambda>u. \<lparr>np_expense_id = new_id, np_user_id = u,
                         np_amount_owed = Fin (A / of_nat (length (selectedParticipants f))),
                         np_is_settled = False\<rparr>) (selectedParticipants f))
             (w\<lparr>writes := writes w @
                   [InsertExpense \<lparr>ne_description = form_description f, ne_amount = Fin A,
                      ne_expense_date = form_expenseDate f, ne_group_id = selectedGroup f,
                      ne_paid_by = user\<rparr>],
                expenses := expenses w @
                   [\<lparr>e_id = new_id, e_description = form_description f, e_amount = a,
                     e_paid_by = user, e_group_id = Some (selectedGroup f),
                     e_expense_date = form_expenseDate f\<rparr>]\<rparr>) of
        (Inl participantsError, w2) \<Rightarrow> (Failed, w2)
      | (Inr rows, w2) \<Rightarrow> (Success, w2))"
proof -
  let ?r = "\<lparr>ne_description = form_description f, ne_amount = Fin A,
             ne_expense_date = form_expenseDate f, ne_group_id = selectedGroup f,
             ne_paid_by = user\<rparr>"
  have ins: "insert_expense (link 0) new_id ?r w =
           (Inr \<lparr>e_id = new_id, e_description = form_description f, e_amount = a,
                 e_paid_by = user, e_group_id = Some (selectedGroup f),
                 e_expense_date = form_expenseDate f\<rparr>,
            w\<lparr>writes := writes w @ [InsertExpense ?r],
              expenses := expenses w @
                [\<lparr>e_id = new_id, e_description = form_description f, e_amount = a,
                  e_paid_by = user, e_group_id = Some (selectedGroup f),
                  e_expense_date = form_expenseDate f\<rparr>]\<rparr>)"
    using insert_expense_accepted [of "link 0" ?r A a new_id w] accepted by simp
  have div: "num_div (Fin A) (length (selectedParticipants f))
               = Fin (A / of_nat (length (selectedParticipants f)))"
    using valid(2) by simp
  show ?thesis
    unfolding handleSubmit_def using valid
    by (simp add: parse Let_def ins div)
qed


lemma participant_rows_split_ok:
  "decimal_10_2 x = Some b \<Longrightarrow>
   participant_rows (map (\<lambda>u. \<lparr>np_expense_id = i, np_user_id = u, np_amount_owed = Fin x,
                                  np_is_settled = False\<rparr>) sel)
     = Inr (map (\<lambda>u. \<lparr>expense_id = i, user_id = u, amount_owed = b, is_settled = False\<rparr>) sel)"
  by (induction sel) simp_all

lemma decimal_share:
  assumes pos: "0 < A" and dec: "decimal_10_2 A = Some a" and n: "0 < n"
  shows "\<exists>b. decimal_10_2 (A / of_nat n) = Some b \<and> 0 \<le> b"
proof -
  let ?x = "A / of_nat n"
  from n have n1: "(1::rat) \<le> of_nat n" by simp
  from pos n have x0: "0 \<le> ?x" by simp
  have "?x \<le> A"
  proof -
    from pos n1 have "A \<le> A * of_nat n" by (simp add: mult_le_cancel_left1)
    with n show ?thesis by (simp add: divide_le_eq)
  qed
  then have "?x * 100 + 1 / 2 \<le> A * 100 + 1 / 2" by linarith
  then have "\<lfloor>?x * 100 + 1 / 2\<rfloor> \<le> \<lfloor>A * 100 + 1 / 2\<rfloor>" by (rule floor_mono)
  then have le: "(of_int \<lfloor>?x * 100 + 1 / 2\<rfloor> :: rat) / 100 \<le> of_int \<lfloor>A * 100 + 1 / 2\<rfloor> / 100"
    by (simp add: divide_right_mono)
  from x0 have "(0::rat) \<le> ?x * 100 + 1 / 2" by simp
  then have "0 \<le> \<lfloor>?x * 100 + 1 / 2\<rfloor>" by simp
  then have ge: "(0::rat) \<le> of_int \<lfloor>?x * 100 + 1 / 2\<rfloor> / 100" by simp
  from pos dec have "\<bar>(of_int \<lfloor>A * 100 + 1 / 2\<rfloor> :: rat) / 100\<bar> < 100000000"
    by (simp add: decimal_10_2_def Let_def split: if_splits)
  then have "(of_int \<lfloor>A * 100 + 1 / 2\<rfloor> :: rat) / 100 < 100000000" by linarith
  with le ge have "\<bar>(of_int \<lfloor>?x * 100 + 1 / 2\<rfloor> :: rat) / 100\<bar> < 100000000" by linarith
  with x0 have "decimal_10_2 ?x = Some (of_int \<lfloor>?x * 100 + 1 / 2\<rfloor> / 100)"
    by (simp add: decimal_10_2_def Let_def not_less [symmetric] del: not_less)
  with ge show ?thesis by blast
qed


lemma decimal_pos:
  assumes "decimal_10_2 A = Some a" and "0 < a"
  shows "0 < A"
proof (rule ccontr)
  assume "\<not> 0 < A"
  then consider "A < 0" | "A = 0" by linarith
  then show False
  proof cases
    case 1
    then have "(0::rat) \<le> - A * 100 + 1 / 2" by simp
    then have "0 \<le> \<lfloor>- A * 100 + 1 / 2\<rfloor>" by simp
    then have "- (of_int \<lfloor>- A * 100 + 1 / 2\<rfloor> :: rat) / 100 \<le> 0" by simp
    moreover from 1 assms(1) have "a = - of_int \<lfloor>- A * 100 + 1 / 2\<rfloor> / 100"
      by (simp add: decimal_10_2_def Let_def split: if_splits)
    ultimately show False using assms(2) by linarith
  next
    case 2
    have "decimal_10_2 0 = Some 0" by code_simp
    with 2 assms show False by simp
  qed
qed

text \<open>
  Conditions under which the creation succeeds: both requests answered, an amount that
  the column accepts as positive, a fresh key, no identity selected twice, and a store
  that kept its reference and uniqueness constraints on participant rows.
\<close>

lemma handleSubmit_succeeds:
  assumes valid: "selectedGroup f \<noteq> []" "selectedParticipants f \<noteq> []"
      "form_description f \<noteq> []" "form_amount f \<noteq> []"
    and parse: "parseFloat (form_amount f) = Fin A"
    and accepted: "link 0" "decimal_10_2 A = Some a" "0 < a"
      "new_id \<notin> set (map e_id (expenses w))"
    and second: "link 1"
    and sel: "distinct (selectedParticipants f)"
    and fk: "\<forall>p\<in>set (expense_participants w). expense_id p \<in> set (map e_id (expenses w))"
    and uniq: "distinct (map (\<lambda>p. (expense_id p, user_id p)) (expense_participants w))"
  shows "fst (handleSubmit parseFloat link new_id user f w) = Success"
proof -
  let ?sel = "selectedParticipants f"
  let ?x = "A / of_nat (length ?sel)"
  let ?rs = "map (\<lambda>u. \<lparr>np_expense_id = new_id, np_user_id = u, np_amount_owed = Fin ?x,
                         np_is_settled = False\<rparr>) ?sel"
  let ?w1 = "w\<lparr>writes := writes w @
                   [InsertExpense \<lparr>ne_description = form_description f, ne_amount = Fin A,
                      ne_expense_date = form_expenseDate f, ne_group_id = selectedGroup f,
                      ne_paid_by = user\<rparr>],
                expenses := expenses w @
                   [\<lparr>e_id = new_id, e_description = form_description f, e_amount = a,
                     e_paid_by = user, e_group_id = Some (selectedGroup f),
                     e_expense_date = form_expenseDate f\<rparr>]\<rparr>"
  from valid(2) have len: "0 < length ?sel" by simp
  from decimal_share [OF decimal_pos [OF accepted(2,3)] accepted(2) len]
  obtain b where b: "decimal_10_2 ?x = Some b" "0 \<le> b" by blast
  let ?rows = "map (\<lambda>u. \<lparr>expense_id = new_id, user_id = u, amount_owed = b,
                           is_settled = False\<rparr>) ?sel"
  have rows: "participant_rows ?rs = Inr ?rows"
    using b(1) by (rule participant_rows_split_ok)
  have chk: "list_all (\<lambda>p. 0 \<le> amount_owed p) ?rows"
    using b(2) by (simp add: list_all_iff)
  have ref: "list_all (\<lambda>p. expense_id p \<in> set (map e_id (expenses ?w1))) ?rows"
    by (simp add: list_all_iff)
  have keys_new: "map (\<lambda>p. (expense_id p, user_id p)) ?rows = map (Pair new_id) ?sel"
    by (simp add: comp_def)
  have "distinct (map (Pair new_id) ?sel)"
    using sel by (simp add: distinct_map inj_on_def)
  moreover have "set (map (\<lambda>p. (expense_id p, user_id p)) (expense_participants w))
                   \<inter> set (map (Pair new_id) ?sel) = {}"
    using fk accepted(4) by auto
  ultimately have key: "distinct (map (\<lambda>p. (expense_id p, user_id p))
                                    (expense_participants ?w1 @ ?rows))"
    using uniq keys_new by (simp del: map_map)
  have "insert_participants (link 1) ?rs ?w1
          = (Inr ?rows,
             ?w1\<lparr>writes := writes ?w1 @ [InsertParticipants ?rs],
                  expense_participants := expense_participants ?w1 @ ?rows\<rparr>)"
    unfolding insert_participants_def Let_def
    using second rows chk ref key by (simp only: not_True_eq_False if_False sum.case if_True simp_thms)
  with handleSubmit_accepted [where parseFloat = parseFloat and link = link and user = user,
      OF valid parse accepted]
  show ?thesis by simp
qed


lemma decimal_300: "decimal_10_2 300 = Some 300"
  by code_simp

lemma decimal_100: "decimal_10_2 100 = Some 100"
  by code_simp

lemma form_300_run:
  "handleSubmit parse_examples always ''e1'' ''u1'' form_300 sample_world =
     (Success,
      sample_world
        \<lparr>writes := [InsertExpense \<lparr>ne_description = ''Dinner'', ne_amount = Fin 300,
                       ne_expense_date = ''2025-02-01'', ne_group_id = ''g1'',
                       ne_paid_by = ''u1''\<rparr>,
                    InsertParticipants
                      [\<lparr>np_expense_id = ''e1'', np_user_id = ''u1'', np_amount_owed = Fin 100,
                        np_is_settled = False\<rparr>,
                       \<lparr>np_expense_id = ''e1'', np_user_id = ''u2'', np_amount_owed = Fin 100,
                        np_is_settled = False\<rparr>,
                       \<lparr>np_expense_id = ''e1'', np_user_id = ''u3'', np_amount_owed = Fin 100,
                        np_is_settled = False\<rparr>]],
         expenses := expenses sample_world @
                    [\<lparr>e_id = ''e1'', e_description = ''Dinner'', e_amount = 300,
                      e_paid_by = ''u1'', e_group_id = Some ''g1'',
                      e_expense_date = ''2025-02-01''\<rparr>],
         expense_participants := expense_participants sample_world @
                    [\<lparr>expense_id = ''e1'', user_id = ''u1'', amount_owed = 100,
                      is_settled = False\<rparr>,
                     \<lparr>expense_id = ''e1'', user_id = ''u2'', amount_owed = 100,
                      is_settled = False\<rparr>,
                     \<lparr>expense_id = ''e1'', user_id = ''u3'', amount_owed = 100,
                      is_settled = False\<rparr>]\<rparr>)"
  by (simp add: handleSubmit_def insert_expense_def insert_participants_def form_300_def
      sample_world_def parse_examples_def always_def decimal_300 decimal_100 Let_def)


text \<open>
  C7. The expense row is accepted and the action ends with the failure notice, so the
  insert of the participant rows was refused: the store then holds the new expense and no
  participant row of it, and the action has issued the two inserts and nothing else.
  The store is one that kept the reference from participant rows to expenses.
\<close>

theorem expense_without_participants:
  assumes valid: "selectedGroup f \<noteq> []" "selectedParticipants f \<noteq> []"
      "form_description f \<noteq> []" "form_amount f \<noteq> []"
    and parse: "parseFloat (form_amount f) = Fin A"
    and accepted: "link 0" "decimal_10_2 A = Some a" "0 < a"
      "new_id \<notin> set (map e_id (expenses w))"
    and fk: "\<forall>p\<in>set (expense_participants w). expense_id p \<in> set (map e_id (expenses w))"
    and failed: "fst (handleSubmit parseFloat link new_id user f w) = Failed"
  shows "\<exists>e r rs.
           expenses (snd (handleSubmit parseFloat link new_id user f w)) = expenses w @ [e]
         \<and> e_id e = new_id \<and> e_paid_by e = user
         \<and> expense_participants (snd (handleSubmit parseFloat link new_id user f w))
             = expense_participants w
         \<and> filter (\<lambda>p. expense_id p = new_id)
             (expense_participants (snd (handleSubmit parseFloat link new_id user f w))) = []
         \<and> writes (snd (handleSubmit parseFloat link new_id user f w))
             = writes w @ [InsertExpense r, InsertParticipants rs]"
proof -
  let ?sel = "selectedParticipants f"
  let ?rs = "map (\<lambda>u. \<lparr>np_expense_id = new_id, np_user_id = u,
                         np_amount_owed = Fin (A / of_nat (length ?sel)),
                         np_is_settled = False\<rparr>) ?sel"
  let ?r = "\<lparr>ne_description = form_description f, ne_amount = Fin A,
             ne_expense_date = form_expenseDate f, ne_group_id = selectedGroup f,
             ne_paid_by = user\<rparr>"
  let ?e = "\<lparr>e_id = new_id, e_description = form_description f, e_amount = a,
             e_paid_by = user, e_group_id = Some (selectedGroup f),
             e_expense_date = form_expenseDate f\<rparr>"
  let ?w1 = "w\<lparr>writes := writes w @ [InsertExpense ?r], expenses := expenses w @ [?e]\<rparr>"
  obtain res w2 where ins: "insert_participants (link 1) ?rs ?w1 = (res, w2)"
    by (cases "insert_participants (link 1) ?rs ?w1")
  have run: "handleSubmit parseFloat link new_id user f w
               = (case res of Inl e \<Rightarrow> (Failed, w2) | Inr rows \<Rightarrow> (Success, w2))"
    using handleSubmit_accepted [where parseFloat = parseFloat and link = link and user = user,
        OF valid parse accepted] ins
    by (simp split: sum.splits)
  with failed obtain err where res: "res = Inl err" by (cases res) simp_all
  have w2: "snd (handleSubmit parseFloat link new_id user f w) = w2"
    using run by (simp split: sum.splits)
  from insert_participants_cases [OF ins] res
  have wr: "writes w2 = writes w @ [InsertExpense ?r, InsertParticipants ?rs]"
    and ex: "expenses w2 = expenses w @ [?e]"
    and tab: "expense_participants w2 = expense_participants w"
    by simp_all
  have none: "filter (\<lambda>p. expense_id p = new_id) (expense_participants w2) = []"
    unfolding tab using fk accepted(4) by (auto simp add: filter_empty_conv)
  from wr ex tab none show ?thesis unfolding w2 by auto
qed

lemma form_300_second_refused:
  "handleSubmit parse_examples first_only ''e1'' ''u1'' form_300 sample_world =
     (Failed,
      sample_world
        \<lparr>writes := [InsertExpense \<lparr>ne_description = ''Dinner'', ne_amount = Fin 300,
                       ne_expense_date = ''2025-02-01'', ne_group_id = ''g1'',
                       ne_paid_by = ''u1''\<rparr>,
                    InsertParticipants
                      [\<lparr>np_expense_id = ''e1'', np_user_id = ''u1'', np_amount_owed = Fin 100,
                        np_is_settled = False\<rparr>,
                       \<lparr>np_expense_id = ''e1'', np_user_id = ''u2'', np_amount_owed = Fin 100,
                        np_is_settled = False\<rparr>,
                       \<lparr>np_expense_id = ''e1'', np_user_id = ''u3'', np_amount_owed = Fin 100,
                        np_is_settled = False\<rparr>]],
         expenses := expenses sample_world @
                    [\<lparr>e_id = ''e1'', e_description = ''Dinner'', e_amount = 300,
                      e_paid_by = ''u1'', e_group_id = Some ''g1'',
                      e_expense_date = ''2025-02-01''\<rparr>]\<rparr>)"
  by (simp add: handleSubmit_def insert_expense_def insert_participants_def form_300_def
      sample_world_def parse_examples_def first_only_def decimal_300 decimal_100 Let_def)

theorem expense_without_participants_witness:
  "selectedGroup form_300 \<noteq> [] \<and> selectedParticipants form_300 \<noteq> []
   \<and> form_description form_300 \<noteq> [] \<and> form_amount form_300 \<noteq> []
   \<and> parse_examples (form_amount form_300) = Fin 300
   \<and> first_only 0 \<and> \<not> first_only 1 \<and> decimal_10_2 300 = Some 300
   \<and> ''e1'' \<notin> set (map e_id (expenses sample_world))
   \<and> list_all (\<lambda>p. expense_id p \<in> set (map e_id (expenses sample_world)))
        (expense_participants sample_world)
   \<and> fst (handleSubmit parse_examples first_only ''e1'' ''u1'' form_300 sample_world) = Failed
   \<and> map e_id (expenses
        (snd (handleSubmit parse_examples first_only ''e1'' ''u1'' form_300 sample_world)))
       = [''e0'', ''e1'']
   \<and> filter (\<lambda>p. expense_id p = ''e1'')
        (expense_participants
          (snd (handleSubmit parse_examples first_only ''e1'' ''u1'' form_300 sample_world)))
       = []"
proof -
  have valid: "selectedGroup form_300 \<noteq> []" "selectedParticipants form_300 \<noteq> []"
      "form_description form_300 \<noteq> []" "form_amount form_300 \<noteq> []"
    by (simp_all add: form_300_def)
  have parse: "parse_examples (form_amount form_300) = Fin 300"
    by (simp add: form_300_def parse_examples_def)
  have accepted: "first_only 0" "decimal_10_2 300 = Some 300" "(0::rat) < 300"
      "''e1'' \<notin> set (map e_id (expenses sample_world))"
    by (simp_all add: first_only_def decimal_300 sample_world_def)
  have failed: "fst (handleSubmit parse_examples first_only ''e1'' ''u1'' form_300 sample_world)
                  = Failed"
    by (simp add: form_300_second_refused)
  from expense_without_participants [where parseFloat = parse_examples
      and link = first_only and user = "''u1''", OF valid parse accepted sample_fk failed]
  obtain e where
    "expenses (snd (handleSubmit parse_examples first_only ''e1'' ''u1'' form_300 sample_world))
       = expenses sample_world @ [e]" and "e_id e = ''e1''"
    and "filter (\<lambda>p. expense_id p = ''e1'')
          (expense_participants
            (snd (handleSubmit parse_examples first_only ''e1'' ''u1'' form_300 sample_world)))
         = []"
    by blast
  moreover have "map e_id (expenses sample_world) = [''e0'']"
    by (simp add: sample_world_def)
  moreover have "\<not> first_only 1" by (simp add: first_only_def)
  ultimately show ?thesis
    using valid parse accepted failed sample_fk by (simp add: list_all_iff)
qed

lemma handleSubmit_SuccessD:
  assumes "handleSubmit parseFloat link new_id user f w = (Success, w')"
  shows "selectedParticipants f \<noteq> []
       \<and> (\<exists>a rows.
             to_decimal (parseFloat (form_amount f)) = Inr a
           \<and> new_id \<notin> set (map e_id (expenses w))
           \<and> participant_rows
                (map (\<lambda>u. \<lparr>np_expense_id = new_id, np_user_id = u,
                            np_amount_owed = num_div (parseFloat (form_amount f))
                                               (length (selectedParticipants f)),
                            np_is_settled = False\<rparr>) (selectedParticipants f)) = Inr rows
           \<and> distinct (map (\<lambda>p. (expense_id p, user_id p)) (expense_participants w @ rows))
           \<and> expenses w' = expenses w @
                [\<lparr>e_id = new_id, e_description = form_description f, e_amount = a,
                  e_paid_by = user, e_group_id = Some (selectedGroup f),
                  e_expense_date = form_expenseDate f\<rparr>]
           \<and> expense_participants w' = expense_participants w @ rows)"
  using assms
  by (auto simp add: handleSubmit_def insert_expense_def insert_participants_def Let_def
      split: if_splits sum.splits prod.splits)

lemma find_snoc:
  "find P (xs @ [y]) = (case find P xs of None \<Rightarrow> (if P y then Some y else None) | Some x \<Rightarrow> Some x)"
  by (induction xs) simp_all

lemma paid_by_other_after_own_expense:
  assumes "expenses w' = expenses w @ [e]" and "e_paid_by e = payer"
  shows "(\<exists>x. parent w' p = Some x \<and> e_paid_by x \<noteq> payer)
           = (\<exists>x. parent w p = Some x \<and> e_paid_by x \<noteq> payer)"
  using assms by (auto simp add: parent_def find_snoc split: option.splits if_splits)

text \<open>
  C3. From any state, a creation that succeeds for an amount of 300 and three selected
  participants, the payer among them, stores three rows of 100 each and leaves the payer's
  \<open>total_owing\<close> as it was; the payer's \<open>total_owed\<close> grows by 100, the payer's own
  share, because the dashboard sums the rows whose \<open>user_id\<close> is the user. The two
  shares of the others, 200, are what the card "You are owed" announces.
\<close>

theorem split_300_three_ways:
  assumes run: "handleSubmit parseFloat link new_id payer f w = (Success, w')"
    and parse: "parseFloat (form_amount f) = Fin 300"
    and three: "selectedParticipants f = [a, b, c]"
    and incl: "payer \<in> {a, b, c}"
    and reads: "view 0" "view 1"
  shows "map amount_owed (drop (length (expense_participants w)) (expense_participants w'))
           = [100, 100, 100]
       \<and> total_owed (fetchDashboardData view w' payer)
           = total_owed (fetchDashboardData view w payer) + 100
       \<and> total_owing (fetchDashboardData view w' payer)
           = total_owing (fetchDashboardData view w payer)"
proof -
  let ?e = "\<lparr>e_id = new_id, e_description = form_description f, e_amount = 300,
             e_paid_by = payer, e_group_id = Some (selectedGroup f),
             e_expense_date = form_expenseDate f\<rparr>"
  let ?rows = "[\<lparr>expense_id = new_id, user_id = a, amount_owed = 100, is_settled = False\<rparr>,
               \<lparr>expense_id = new_id, user_id = b, amount_owed = 100, is_settled = False\<rparr>,
               \<lparr>expense_id = new_id, user_id = c, amount_owed = 100, is_settled = False\<rparr>]"
  let ?old = "expense_participants w"
  from handleSubmit_SuccessD [OF run] parse three
  obtain x rows where amt: "to_decimal (Fin 300) = Inr x"
    and rows: "participant_rows
                 [\<lparr>np_expense_id = new_id, np_user_id = a, np_amount_owed = Fin 100,
                   np_is_settled = False\<rparr>,
                  \<lparr>np_expense_id = new_id, np_user_id = b, np_amount_owed = Fin 100,
                   np_is_settled = False\<rparr>,
                  \<lparr>np_expense_id = new_id, np_user_id = c, np_amount_owed = Fin 100,
                   np_is_settled = False\<rparr>] = Inr rows"
    and dist: "distinct (map (\<lambda>p. (expense_id p, user_id p)) (?old @ rows))"
    and ex: "expenses w' = expenses w @
                [\<lparr>e_id = new_id, e_description = form_description f, e_amount = x,
                  e_paid_by = payer, e_group_id = Some (selectedGroup f),
                  e_expense_date = form_expenseDate f\<rparr>]"
    and tab: "expense_participants w' = ?old @ rows"
    by auto
  from rows have rows_eq: "rows = ?rows" by (simp add: decimal_100)
  from dist have abc: "a \<noteq> b" "a \<noteq> c" "b \<noteq> c" unfolding rows_eq by auto
  have new: "map amount_owed (drop (length ?old) (expense_participants w')) = [100, 100, 100]"
    by (simp add: tab rows_eq)
  have mine: "(\<Sum>p\<leftarrow>filter (\<lambda>p. user_id p = payer \<and> \<not> is_settled p) ?rows. amount_owed p) = 100"
    using incl abc by auto
  have owed: "total_owed (fetchDashboardData view w' payer)
                = total_owed (fetchDashboardData view w payer) + 100"
    using reads mine
    by (simp add: fetchDashboardData_def Let_def owed_rows reduce_Some tab rows_eq)
  have other_old: "filter (\<lambda>p. user_id p = payer
                              \<and> (\<exists>x. parent w' p = Some x \<and> e_paid_by x \<noteq> payer)
                              \<and> \<not> is_settled p) ?old
                 = filter (\<lambda>p. user_id p = payer
                              \<and> (\<exists>x. parent w p = Some x \<and> e_paid_by x \<noteq> payer)
                              \<and> \<not> is_settled p) ?old"
    using paid_by_other_after_own_expense [OF ex, of payer] by simp
  have fresh: "new_id \<notin> set (map e_id (expenses w))"
    using handleSubmit_SuccessD [OF run] by blast
  have parent_new: "parent w' p = Some \<lparr>e_id = new_id, e_description = form_description f,
                      e_amount = x, e_paid_by = payer, e_group_id = Some (selectedGroup f),
                      e_expense_date = form_expenseDate f\<rparr>"
    if "expense_id p = new_id" for p
  proof -
    from fresh that have "find (\<lambda>e. e_id e = expense_id p) (expenses w) = None"
      by (force simp add: find_None_iff)
    with that show ?thesis by (simp add: parent_def ex find_snoc)
  qed
  have other_new: "filter (\<lambda>p. user_id p = payer
                              \<and> (\<exists>x. parent w' p = Some x \<and> e_paid_by x \<noteq> payer)
                              \<and> \<not> is_settled p) ?rows = []"
    by (simp add: parent_new)
  have owing: "total_owing (fetchDashboardData view w' payer)
                 = total_owing (fetchDashboardData view w payer)"
    using reads
    by (simp add: fetchDashboardData_def Let_def owing_rows reduce_Some tab rows_eq
        other_old other_new del: filter.simps)
  from new owed owing show ?thesis by simp
qed

theorem split_300_three_ways_witness:
  "handleSubmit parse_examples always ''e1'' ''u1'' form_300 sample_world
     = (Success, snd (handleSubmit parse_examples always ''e1'' ''u1'' form_300 sample_world))
   \<and> parse_examples (form_amount form_300) = Fin 300
   \<and> selectedParticipants form_300 = [''u1'', ''u2'', ''u3'']
   \<and> ''u1'' \<in> {''u1'', ''u2'', ''u3''}
   \<and> always 0 \<and> always 1
   \<and> total_owed (fetchDashboardData always sample_world ''u1'') = 50
   \<and> total_owed (fetchDashboardData always
         (snd (handleSubmit parse_examples always ''e1'' ''u1'' form_300 sample_world)) ''u1'')
       = 150
   \<and> total_owing (fetchDashboardData always
         (snd (handleSubmit parse_examples always ''e1'' ''u1'' form_300 sample_world)) ''u1'')
       = total_owing (fetchDashboardData always sample_world ''u1'')"
proof -
  let ?w' = "snd (handleSubmit parse_examples always ''e1'' ''u1'' form_300 sample_world)"
  have run: "handleSubmit parse_examples always ''e1'' ''u1'' form_300 sample_world
               = (Success, ?w')"
    by (simp add: form_300_run)
  have parse: "parse_examples (form_amount form_300) = Fin 300"
    by (simp add: form_300_def parse_examples_def)
  have three: "selectedParticipants form_300 = [''u1'', ''u2'', ''u3'']"
    by (simp add: form_300_def)
  have incl: "''u1'' \<in> {''u1'', ''u2'', ''u3''}" by simp
  have reads: "always 0" "always 1" by (simp_all add: always_def)
  have before: "total_owed (fetchDashboardData always sample_world ''u1'') = 50"
    by (simp add: fetchDashboardData_def Let_def owed_rows reduce_Some always_def
        sample_world_def)
  from split_300_three_ways [where view = always, OF run parse three incl reads] before
  have "total_owed (fetchDashboardData always ?w' ''u1'') = 150"
    and "total_owing (fetchDashboardData always ?w' ''u1'')
           = total_owing (fetchDashboardData always sample_world ''u1'')"
    by simp_all
  with run parse three reads before show ?thesis by simp
qed

lemma form_zero_run:
  "handleSubmit parse_examples always ''e1'' ''u1'' form_zero sample_world =
     (Failed,
      sample_world
        \<lparr>writes := [InsertExpense \<lparr>ne_description = ''Dinner'', ne_amount = Fin 0,
                       ne_expense_date = ''2025-02-01'', ne_group_id = ''g1'',
                       ne_paid_by = ''u1''\<rparr>]\<rparr>)"
proof -
  have "decimal_10_2 0 = Some 0" by code_simp
  then show ?thesis
    by (simp add: handleSubmit_def insert_expense_def form_zero_def form_300_def
        sample_world_def parse_examples_def always_def Let_def)
qed

lemma handleSubmit_missing_field:
  "selectedGroup f = [] \<or> selectedParticipants f = [] \<or> form_description f = []
     \<or> form_amount f = [] \<Longrightarrow>
   handleSubmit parseFloat link new_id user f w = (ValidationError, w)"
  by (auto simp add: handleSubmit_def)

lemma handleSettle_rejects_before_write:
  "selectedDebt form = None \<or> settleAmount form = [] \<or> trim (settleDescription form) = []
     \<or> num_le_zero (parseFloat (settleAmount form)) \<Longrightarrow>
   snd (handleSettle parseFloat link user form w) = w"
  by (auto simp add: handleSettle_def Let_def split: option.splits)

text \<open>
  C8. An expense form with every required field filled and the amount "0": the amount is
  not positive, and \<^verbatim>\<open>handleSubmit\<close> still issues the insert of the expense, which the
  store then refuses. \<^verbatim>\<open>handleSettle\<close> does test \<^verbatim>\<open>amount <= 0\<close> before its
  insert (\<open>handleSettle_rejects_before_write\<close>), and both actions return before any
  request when a required field is empty.
\<close>

theorem zero_amount_expense_is_sent:
  "parse_examples (form_amount form_zero) = Fin 0
   \<and> num_le_zero (parse_examples (form_amount form_zero))
   \<and> writes sample_world = []
   \<and> fst (handleSubmit parse_examples always ''e1'' ''u1'' form_zero sample_world) = Failed
   \<and> writes (snd (handleSubmit parse_examples always ''e1'' ''u1'' form_zero sample_world))
       = [InsertExpense \<lparr>ne_description = ''Dinner'', ne_amount = Fin 0,
            ne_expense_date = ''2025-02-01'', ne_group_id = ''g1'', ne_paid_by = ''u1''\<rparr>]"
  by (simp add: form_zero_run)
     (simp add: form_zero_def form_300_def parse_examples_def sample_world_def)

section \<open>Properties of settling\<close>

lemma dashboard_same_tables:
  "expense_participants w' = expense_participants w \<Longrightarrow> expenses w' = expenses w \<Longrightarrow>
     fetchDashboardData view w' u = fetchDashboardData view w u"
  by (simp add: fetchDashboardData_def select_owed_def select_owing_def parent_def)

lemma insert_settlement_cases:
  "insert_settlement answered r w = (res, w') \<Longrightarrow>
     writes w' = writes w @ [InsertSettlement r]
     \<and> expense_participants w' = expense_participants w
     \<and> expenses w' = expenses w
     \<and> (case res of
           Inl e \<Rightarrow> settlements w' = settlements w
         | Inr row \<Rightarrow> settlements w' = settlements w @ [row]
                      \<and> s_from_user row = ns_from_user r \<and> s_to_user row = ns_to_user r
                      \<and> to_decimal (ns_amount r) = Inr (s_amount row)
                      \<and> s_description row = ns_description r)"
  by (auto simp add: insert_settlement_def Let_def split: if_splits sum.splits)

lemma handleSettle_cases:
  "handleSettle parseFloat link user form w = (ValidationError, w)
   \<or> handleSettle parseFloat link user form w = (InvalidAmount, w)
   \<or> (\<exists>r res w1.
         insert_settlement (link 0) r w = (res, w1) \<and> ns_from_user r = user
       \<and> handleSettle parseFloat link user form w
           = ((case res of Inl e \<Rightarrow> Failed | Inr row \<Rightarrow> PaymentRecorded), w1))"
proof (cases "selectedDebt form")
  case None
  then show ?thesis by (simp add: handleSettle_def)
next
  case (Some debt)
  let ?r = "\<lparr>ns_from_user = user, ns_to_user = d_user_id debt,
             ns_amount = parseFloat (settleAmount form),
             ns_description = trim (settleDescription form), ns_group_id = None\<rparr>"
  obtain res w1 where ins: "insert_settlement (link 0) ?r w = (res, w1)"
    by (cases "insert_settlement (link 0) ?r w")
  show ?thesis
  proof (cases "settleAmount form = [] \<or> trim (settleDescription form) = []")
    case True
    with Some show ?thesis by (simp add: handleSettle_def)
  next
    case False
    show ?thesis
    proof (cases "num_le_zero (parseFloat (settleAmount form))")
      case True
      with Some False show ?thesis by (simp add: handleSettle_def Let_def)
    next
      case le: False
      have "handleSettle parseFloat link user form w
              = ((case res of Inl e \<Rightarrow> Failed | Inr row \<Rightarrow> PaymentRecorded), w1)"
        using Some False le ins by (simp add: handleSettle_def Let_def split: sum.splits)
      moreover have "ns_from_user ?r = user" by simp
      ultimately show ?thesis using ins by blast
    qed
  qed
qed

text \<open>
  C5. Whatever the form and the answer of the store, \<^verbatim>\<open>handleSettle\<close> leaves the
  participant rows and the expenses as they are. A recorded payment appends one settlement
  row, from the user; any other outcome leaves the settlements as they are. The balances
  of the dashboard, for every user, are the same after the action as before.
\<close>

theorem settle_leaves_participants:
  "expense_participants (snd (handleSettle parseFloat link user form w))
     = expense_participants w
   \<and> expenses (snd (handleSettle parseFloat link user form w)) = expenses w
   \<and> (fst (handleSettle parseFloat link user form w) = PaymentRecorded \<longrightarrow>
        (\<exists>row. settlements (snd (handleSettle parseFloat link user form w))
                  = settlements w @ [row]
               \<and> s_from_user row = user))
   \<and> (fst (handleSettle parseFloat link user form w) \<noteq> PaymentRecorded \<longrightarrow>
        settlements (snd (handleSettle parseFloat link user form w)) = settlements w)
   \<and> fetchDashboardData view (snd (handleSettle parseFloat link user form w)) u
       = fetchDashboardData view w u"
proof -
  obtain t w' where R: "handleSettle parseFloat link user form w = (t, w')"
    by (cases "handleSettle parseFloat link user form w")
  have tabs: "expense_participants w' = expense_participants w \<and> expenses w' = expenses w"
    and rec: "t = PaymentRecorded \<longrightarrow>
                (\<exists>row. settlements w' = settlements w @ [row] \<and> s_from_user row = user)"
    and norec: "t \<noteq> PaymentRecorded \<longrightarrow> settlements w' = settlements w"
  proof -
    from handleSettle_cases [of parseFloat link user form w]
    consider (rejected) "t \<noteq> PaymentRecorded" "w' = w"
      | (sent) r res w1 where "insert_settlement (link 0) r w = (res, w1)"
          "ns_from_user r = user"
          "t = (case res of Inl e \<Rightarrow> Failed | Inr row \<Rightarrow> PaymentRecorded)" "w' = w1"
      unfolding R by fastforce
    then have "(expense_participants w' = expense_participants w \<and> expenses w' = expenses w)
        \<and> (t = PaymentRecorded \<longrightarrow>
                (\<exists>row. settlements w' = settlements w @ [row] \<and> s_from_user row = user))
        \<and> (t \<noteq> PaymentRecorded \<longrightarrow> settlements w' = settlements w)"
    proof cases
      case rejected
      then show ?thesis by simp
    next
      case sent
      from insert_settlement_cases [OF sent(1)] sent(2)
      have a: "expense_participants w1 = expense_participants w" "expenses w1 = expenses w"
        and st: "case res of
                   Inl e \<Rightarrow> settlements w1 = settlements w
                 | Inr row \<Rightarrow> settlements w1 = settlements w @ [row] \<and> s_from_user row = user"
        by (simp_all split: sum.splits)
      show ?thesis
      proof (cases res)
        case (Inl e)
        with sent(3,4) st a show ?thesis by simp
      next
        case (Inr row)
        with sent(3,4) st a show ?thesis by simp
      qed
    qed
    then show "expense_participants w' = expense_participants w \<and> expenses w' = expenses w"
      and "t = PaymentRecorded \<longrightarrow>
                (\<exists>row. settlements w' = settlements w @ [row] \<and> s_from_user row = user)"
      and "t \<noteq> PaymentRecorded \<longrightarrow> settlements w' = settlements w"
      by blast+
  qed
  from tabs have dash: "fetchDashboardData view w' u = fetchDashboardData view w u"
    by (intro dashboard_same_tables) simp_all
  from tabs rec norec dash show ?thesis unfolding R by simp
qed

lemma settle_form_50_run:
  "handleSettle parse_examples always ''u1'' settle_form_50 sample_world =
     (PaymentRecorded,
      sample_world
        \<lparr>settlements := [\<lparr>s_from_user = ''u1'', s_to_user = ''u2'', s_amount = 50,
                           s_description = ''cash'', s_group_id = None\<rparr>],
         writes := [InsertSettlement \<lparr>ns_from_user = ''u1'', ns_to_user = ''u2'',
                      ns_amount = Fin 50, ns_description = ''cash'', ns_group_id = None\<rparr>]\<rparr>)"
proof -
  have "decimal_10_2 50 = Some 50" by code_simp
  moreover have "trim '' cash '' = ''cash''" by (simp add: trim_def is_space_def)
  ultimately show ?thesis
    by (simp add: handleSettle_def insert_settlement_def settle_form_50_def
        sample_world_def parse_examples_def always_def Let_def)
qed

theorem settle_leaves_participants_witness:
  "fst (handleSettle parse_examples always ''u1'' settle_form_50 sample_world) = PaymentRecorded
   \<and> length (settlements (snd (handleSettle parse_examples always ''u1'' settle_form_50
                                 sample_world)))
       = Suc (length (settlements sample_world))
   \<and> expense_participants (snd (handleSettle parse_examples always ''u1'' settle_form_50
                                  sample_world))
       = expense_participants sample_world
   \<and> fetchDashboardData always
        (snd (handleSettle parse_examples always ''u1'' settle_form_50 sample_world)) ''u1''
       = \<lparr>total_owed = 50, total_owing = 50, net_balance = 0\<rparr>
   \<and> fetchDashboardData always sample_world ''u1''
       = \<lparr>total_owed = 50, total_owing = 50, net_balance = 0\<rparr>"
proof -
  let ?R = "handleSettle parse_examples always ''u1'' settle_form_50 sample_world"
  have rec: "fst ?R = PaymentRecorded" by (simp add: settle_form_50_run)
  have before: "fetchDashboardData always sample_world ''u1''
                  = \<lparr>total_owed = 50, total_owing = 50, net_balance = 0\<rparr>"
    by (simp add: fetchDashboardData_def Let_def owed_rows owing_rows reduce_Some always_def
        sample_world_def parent_def)
  from settle_leaves_participants [of parse_examples always "''u1''" settle_form_50
      sample_world always "''u1''"] rec
  obtain row where
    "settlements (snd ?R) = settlements sample_world @ [row]"
    and "expense_participants (snd ?R) = expense_participants sample_world"
    and "fetchDashboardData always (snd ?R) ''u1'' = fetchDashboardData always sample_world ''u1''"
    by blast
  with rec before show ?thesis by simp
qed

section \<open>Properties of adding a friend\<close>


lemma single_Some_iff: "single xs = Some x \<longleftrightarrow> xs = [x]"
  by (cases xs rule: single.cases) auto

lemma single_None_iff: "single xs = None \<longleftrightarrow> xs = [] \<or> (\<exists>x y zs. xs = x # y # zs)"
  by (cases xs rule: single.cases) auto










section \<open>Properties of the settle-up list\<close>

































end
